theory Spec2Isabelle
  imports Main "HOL-Library.AList" "HOL-Library.Char_ord" "HOL-Library.List_Lexorder"
begin

section \<open>Python values and exceptions\<close>

text \<open>
  The exceptions that occur in \<^verbatim>\<open>pycliff\<close>: the package's own
  \<^verbatim>\<open>CommandBindingException\<close> (with its message), the built-in ones the console
  catches or lets through, and \<open>OtherException\<close> for any other error a handler may raise.
  In Python 3 \<^verbatim>\<open>IOError\<close> is an alias of \<^verbatim>\<open>OSError\<close>.
\<close>

datatype exn =
    CommandBindingException string
  | KeyboardInterrupt
  | EOFError
  | OSError
  | IndexError
  | TypeError
  | ValueError
  | OtherException string

text \<open>
  The values that can be stored as a handler: \<^verbatim>\<open>None\<close>, a string, an integer, or a
  callable. A callable is named by an identifier of type \<open>'h\<close>; what calling it does is
  given separately (see \<open>handlers\<close> below), because a handler closes over the very object
  that stores it.
\<close>

datatype 'h pyobj = PyNone | PyStr string | PyInt int | PyFunc 'h

fun callable :: "'h pyobj \<Rightarrow> bool" where
  "callable (PyFunc h) = True"
| "callable PyNone = False"
| "callable (PyStr s) = False"
| "callable (PyInt i) = False"

text \<open>
  Calling a handler: it receives the positional arguments and the state it can reach,
  and either returns a value or raises, leaving a new state.
\<close>

type_synonym ('h, 's) handlers = "'h \<Rightarrow> string list \<Rightarrow> 's \<Rightarrow> (exn + 'h pyobj) \<times> 's"

text \<open>A call \<^verbatim>\<open>f(*args)\<close>: calling what is not callable raises \<^verbatim>\<open>TypeError\<close>.\<close>

fun py_call :: "('h, 's) handlers \<Rightarrow> 'h pyobj \<Rightarrow> string list \<Rightarrow> 's \<Rightarrow> (exn + 'h pyobj) \<times> 's" where
  "py_call call (PyFunc h) as s = call h as s"
| "py_call call PyNone as s = (Inl TypeError, s)"
| "py_call call (PyStr v) as s = (Inl TypeError, s)"
| "py_call call (PyInt v) as s = (Inl TypeError, s)"

text \<open>Python's \<^verbatim>\<open>seq[i]\<close> for an integer \<open>i\<close>: negative indices count from the end.\<close>

definition py_getitem :: "'a list \<Rightarrow> int \<Rightarrow> exn + 'a" where
  "py_getitem xs i =
     (let n = int (length xs); j = (if i < 0 then n + i else i)
      in if 0 \<le> j \<and> j < n then Inr (xs ! nat j) else Inl IndexError)"

section \<open>bindings.py\<close>

text \<open>
  \<^verbatim>\<open>self._commands\<close> is a dict: an association list in insertion order, written with
  \<open>AList.update\<close> (an existing key keeps its place, a new key goes to the end) and read
  with \<open>map_of\<close>. The record's extension slot stands for the rest of the state a handler
  can reach: the \<open>Console\<close> below fills it with its own fields.
\<close>

record 'h Bindings =
  commands :: "(string \<times> 'h pyobj) list"
  default_handler :: "'h pyobj"
  args :: "string list"

definition Bindings_init :: "'h Bindings" where
  "Bindings_init = \<lparr>commands = [], default_handler = PyNone, args = []\<rparr>"

definition Bindings_contains :: "string \<Rightarrow> ('h, 'm) Bindings_scheme \<Rightarrow> bool" where
  "Bindings_contains key b = (key \<in> set (map fst (commands b)))"

definition argc :: "('h, 'm) Bindings_scheme \<Rightarrow> nat" where
  "argc b = length (args b)"

definition Bindings_getArg ::
  "int \<Rightarrow> 'h pyobj \<Rightarrow> ('h, 'm) Bindings_scheme \<Rightarrow> exn + 'h pyobj" where
  "Bindings_getArg index dflt b =
     (if index \<ge> int (argc b) then Inr dflt
      else (case py_getitem (args b) index of
              Inl e \<Rightarrow> Inl e
            | Inr s \<Rightarrow> Inr (PyStr s)))"

definition Bindings_add ::
  "string \<Rightarrow> 'h pyobj \<Rightarrow> ('h, 'm) Bindings_scheme \<Rightarrow> 'h pyobj \<times> ('h, 'm) Bindings_scheme" where
  "Bindings_add command handler b =
     (handler, b\<lparr>commands := AList.update command handler (commands b)\<rparr>)"

definition Bindings_setDefault ::
  "'h pyobj \<Rightarrow> ('h, 'm) Bindings_scheme \<Rightarrow> 'h pyobj \<times> ('h, 'm) Bindings_scheme" where
  "Bindings_setDefault handler b = (handler, b\<lparr>default_handler := handler\<rparr>)"

definition Bindings_register ::
  "string \<Rightarrow> 'h pyobj \<Rightarrow> ('h, 'm) Bindings_scheme \<Rightarrow> 'h pyobj \<times> ('h, 'm) Bindings_scheme" where
  "Bindings_register command handler b = Bindings_add command handler b"

definition Bindings_asList :: "('h, 'm) Bindings_scheme \<Rightarrow> string list" where
  "Bindings_asList b = sort (map fst (commands b))"

text \<open>\<^verbatim>\<open>self._commands.get(command, self._default)\<close>\<close>

definition commands_get :: "string \<Rightarrow> ('h, 'm) Bindings_scheme \<Rightarrow> 'h pyobj" where
  "commands_get command b =
     (case map_of (commands b) command of
        Some handler \<Rightarrow> handler
      | None \<Rightarrow> default_handler b)"

definition not_recognized :: "string \<Rightarrow> string" where
  "not_recognized command = command @ '': command not recognized''"

text \<open>
  \<^verbatim>\<open>Bindings.execute(*commands)\<close>. The assignment to \<^verbatim>\<open>self._args\<close> comes before the
  lookup; the handler runs on the state that assignment leaves.
\<close>

definition Bindings_execute ::
  "('h, ('h, 'm) Bindings_scheme) handlers \<Rightarrow> string list \<Rightarrow> ('h, 'm) Bindings_scheme
     \<Rightarrow> (exn + 'h pyobj) \<times> ('h, 'm) Bindings_scheme" where
  "Bindings_execute call cmds b =
     (case cmds of
        [] \<Rightarrow> (Inr PyNone, b)
      | command # rest \<Rightarrow>
          (let b1 = b\<lparr>args := rest\<rparr>;
               handler = commands_get command b1
           in if \<not> callable handler
              then (Inl (CommandBindingException (not_recognized command)), b1)
              else py_call call handler (args b1) b1))"

section \<open>console.py\<close>

text \<open>
  The console owns its Bindings, and its handlers reach the console: a \<open>Console\<close> is
  the Bindings record extended by the console's fields. \<open>stdout\<close> is the text written
  so far. Standard input is a list of events, a line typed or an interrupt (CTRL+C) at
  the prompt; a handler's own reads of standard input are not modelled. An interrupt
  while a handler runs is that handler raising \<^verbatim>\<open>KeyboardInterrupt\<close>.
\<close>

record 'h Console = "'h Bindings" +
  running :: bool
  objects :: "(string \<times> 'h pyobj) list"
  prompt :: string
  greeting :: string
  stdout :: string

datatype input_event = Line string | CtrlC

text \<open>What \<^verbatim>\<open>shlex.split\<close> does is a parameter: it returns the tokens or raises.\<close>

type_synonym splitter = "string \<Rightarrow> exn + string list"

text \<open>The files that can be opened, with their lines (each with its line end).\<close>

type_synonym files = "string \<Rightarrow> string list option"

definition py_print :: "string \<Rightarrow> ('h, 'm) Console_scheme \<Rightarrow> ('h, 'm) Console_scheme" where
  "py_print message c = c\<lparr>stdout := stdout c @ message @ [CHR 0x0A]\<rparr>"

text \<open>\<^verbatim>\<open>input(prompt)\<close>: writes the prompt, then reads one line without its line end.\<close>

definition py_input ::
  "string \<Rightarrow> input_event list \<Rightarrow> ('h, 'm) Console_scheme
     \<Rightarrow> (exn + string) \<times> ('h, 'm) Console_scheme \<times> input_event list" where
  "py_input p ins c =
     (let c1 = c\<lparr>stdout := stdout c @ p\<rparr>
      in case ins of
           [] \<Rightarrow> (Inl EOFError, c1, [])
         | Line response # rest \<Rightarrow> (Inr response, c1, rest)
         | CtrlC # rest \<Rightarrow> (Inl KeyboardInterrupt, c1, rest))"

definition Console_setPrompt ::
  "string \<Rightarrow> ('h, 'm) Console_scheme \<Rightarrow> ('h, 'm) Console_scheme" where
  "Console_setPrompt p c = c\<lparr>prompt := [CHR 0x0A] @ p @ '' ''\<rparr>"

definition Console_setGreeting ::
  "string \<Rightarrow> ('h, 'm) Console_scheme \<Rightarrow> ('h, 'm) Console_scheme" where
  "Console_setGreeting g c = c\<lparr>greeting := g\<rparr>"

definition Console_init :: "string \<Rightarrow> string \<Rightarrow> 'h Console" where
  "Console_init p g =
     Console_setGreeting g (Console_setPrompt p
       \<lparr>commands = [], default_handler = PyNone, args = [],
        running = False, objects = [], prompt = [], greeting = [], stdout = []\<rparr>)"

definition Console_useGreeting ::
  "files \<Rightarrow> string \<Rightarrow> ('h, 'm) Console_scheme \<Rightarrow> (exn + unit) \<times> ('h, 'm) Console_scheme" where
  "Console_useGreeting fs filename c =
     (case fs filename of
        None \<Rightarrow> (Inl OSError, c)
      | Some gfile \<Rightarrow> (Inr (), c\<lparr>greeting := concat gfile\<rparr>))"

definition Console_commandList :: "('h, 'm) Console_scheme \<Rightarrow> string list" where
  "Console_commandList c = Bindings_asList c"

fun display :: "string list \<Rightarrow> ('h, 'm) Console_scheme \<Rightarrow> ('h, 'm) Console_scheme" where
  "display [] c = c"
| "display (message # messages) c = display messages (py_print message c)"

text \<open>\<^verbatim>\<open>if self._greeting: self.display(self._greeting)\<close>\<close>

definition display_greeting :: "('h, 'm) Console_scheme \<Rightarrow> ('h, 'm) Console_scheme" where
  "display_greeting c = (if greeting c \<noteq> [] then display [greeting c] c else c)"

definition Console_register ::
  "string \<Rightarrow> 'h pyobj \<Rightarrow> ('h, 'm) Console_scheme \<Rightarrow> 'h pyobj \<times> ('h, 'm) Console_scheme" where
  "Console_register command handler c = Bindings_add command handler c"

definition Console_default ::
  "'h pyobj \<Rightarrow> ('h, 'm) Console_scheme \<Rightarrow> 'h pyobj \<times> ('h, 'm) Console_scheme" where
  "Console_default handler c = Bindings_setDefault handler c"

definition Console_stop :: "('h, 'm) Console_scheme \<Rightarrow> ('h, 'm) Console_scheme" where
  "Console_stop c = c\<lparr>running := False\<rparr>"

definition Console_attach ::
  "string \<Rightarrow> 'h pyobj \<Rightarrow> ('h, 'm) Console_scheme \<Rightarrow> ('h, 'm) Console_scheme" where
  "Console_attach key obj c = c\<lparr>objects := AList.update key obj (objects c)\<rparr>"

definition Console_getObject ::
  "string \<Rightarrow> 'h pyobj \<Rightarrow> ('h, 'm) Console_scheme \<Rightarrow> 'h pyobj" where
  "Console_getObject key dflt c =
     (case map_of (objects c) key of Some obj \<Rightarrow> obj | None \<Rightarrow> dflt)"

text \<open>
  \<^verbatim>\<open>_process_command\<close>: the split is outside the \<^verbatim>\<open>try\<close>; of what
  \<^verbatim>\<open>Bindings.execute\<close> raises, only a \<^verbatim>\<open>CommandBindingException\<close> is caught, and
  its message displayed.
\<close>

definition process_command ::
  "splitter \<Rightarrow> ('h, ('h, 'm) Console_scheme) handlers \<Rightarrow> string \<Rightarrow> ('h, 'm) Console_scheme
     \<Rightarrow> (exn + unit) \<times> ('h, 'm) Console_scheme" where
  "process_command split call command c =
     (case split command of
        Inl e \<Rightarrow> (Inl e, c)
      | Inr tokens \<Rightarrow>
          (case Bindings_execute call tokens c of
             (Inl (CommandBindingException e), c1) \<Rightarrow> (Inr (), display [e] c1)
           | (Inl e, c1) \<Rightarrow> (Inl e, c1)
           | (Inr v, c1) \<Rightarrow> (Inr (), c1)))"

text \<open>
  The \<^verbatim>\<open>while (self._running)\<close> loop of \<^verbatim>\<open>run\<close>. It returns what is left of
  standard input besides the outcome and the console.
\<close>

function run_loop ::
  "splitter \<Rightarrow> ('h, ('h, 'm) Console_scheme) handlers \<Rightarrow> input_event list
     \<Rightarrow> ('h, 'm) Console_scheme \<Rightarrow> (exn + unit) \<times> ('h, 'm) Console_scheme \<times> input_event list" where
  "run_loop split call ins c =
     (if running c then
        (case py_input (prompt c) ins c of
           (Inl e, c1, rest) \<Rightarrow> (Inl e, c1, rest)
         | (Inr response, c1, rest) \<Rightarrow>
             (case process_command split call response c1 of
                (Inl e, c2) \<Rightarrow> (Inl e, c2, rest)
              | (Inr u, c2) \<Rightarrow> run_loop split call rest c2))
      else (Inr (), c, ins))"
  by pat_completeness auto
termination
  by (relation "measure (\<lambda>(split, call, ins, c). length ins)")
     (auto simp: py_input_def Let_def split: list.splits input_event.splits)

declare run_loop.simps [simp del]

text \<open>
  One pass through the body of the \<^verbatim>\<open>while\<close> loop that comes back to its test: the
  flag was set, a line was read and processing it raised nothing. The loop reaches the
  states that iterations lead to from its first one.
\<close>

inductive run_iteration ::
  "splitter \<Rightarrow> ('h, ('h, 'm) Console_scheme) handlers
     \<Rightarrow> input_event list \<times> ('h, 'm) Console_scheme
     \<Rightarrow> input_event list \<times> ('h, 'm) Console_scheme \<Rightarrow> bool"
  for split call where
  iteration:
    "running c \<Longrightarrow> py_input (prompt c) ins c = (Inr response, c1, rest) \<Longrightarrow>
     process_command split call response c1 = (Inr (), c2) \<Longrightarrow>
     run_iteration split call (ins, c) (rest, c2)"

definition Console_run ::
  "splitter \<Rightarrow> ('h, ('h, 'm) Console_scheme) handlers \<Rightarrow> input_event list
     \<Rightarrow> ('h, 'm) Console_scheme \<Rightarrow> (exn + unit) \<times> ('h, 'm) Console_scheme \<times> input_event list" where
  "Console_run split call ins c =
     (let c0 = display_greeting c;
          c1 = c0\<lparr>running := True\<rparr>
      in case run_loop split call ins c1 of
           (Inl KeyboardInterrupt, c2, rest) \<Rightarrow> (Inr (), display ['''', ''Exiting...''] c2, rest)
         | r \<Rightarrow> r)"

text \<open>The \<^verbatim>\<open>for command in script\<close> loop of \<^verbatim>\<open>execute\<close>.\<close>

fun script_loop ::
  "splitter \<Rightarrow> ('h, ('h, 'm) Console_scheme) handlers \<Rightarrow> string list
     \<Rightarrow> ('h, 'm) Console_scheme \<Rightarrow> (exn + unit) \<times> ('h, 'm) Console_scheme" where
  "script_loop split call [] c = (Inr (), c)"
| "script_loop split call (command # script) c =
     (case process_command split call command c of
        (Inl e, c1) \<Rightarrow> (Inl e, c1)
      | (Inr u, c1) \<Rightarrow> script_loop split call script c1)"

definition Console_execute ::
  "files \<Rightarrow> splitter \<Rightarrow> ('h, ('h, 'm) Console_scheme) handlers \<Rightarrow> string
     \<Rightarrow> ('h, 'm) Console_scheme \<Rightarrow> (exn + unit) \<times> ('h, 'm) Console_scheme" where
  "Console_execute fs split call filename c =
     (let c0 = display_greeting c
      in case (case fs filename of
                 None \<Rightarrow> (Inl OSError, c0)
               | Some script \<Rightarrow> script_loop split call script c0) of
           (Inl OSError, c1) \<Rightarrow>
             (Inr (), display [''An error occurred while opening script file''] c1)
         | (Inl KeyboardInterrupt, c1) \<Rightarrow> (Inr (), display [''Terminating...''] c1)
         | r \<Rightarrow> r)"

section \<open>Sequences of registrations\<close>

text \<open>
  A registration is a call of \<^verbatim>\<open>add\<close> (or \<^verbatim>\<open>register\<close>, which calls it) or of
  \<^verbatim>\<open>setDefault\<close>; a sequence of them is applied from left to right.
  \<open>added_names\<close> lists the command names the sequence adds.
\<close>

datatype 'h registration = Add string "'h pyobj" | SetDefault "'h pyobj"

fun apply_registration ::
  "'h registration \<Rightarrow> ('h, 'm) Bindings_scheme \<Rightarrow> ('h, 'm) Bindings_scheme" where
  "apply_registration (Add command handler) b = snd (Bindings_add command handler b)"
| "apply_registration (SetDefault handler) b = snd (Bindings_setDefault handler b)"

fun apply_registrations ::
  "'h registration list \<Rightarrow> ('h, 'm) Bindings_scheme \<Rightarrow> ('h, 'm) Bindings_scheme" where
  "apply_registrations [] b = b"
| "apply_registrations (r # rs) b = apply_registrations rs (apply_registration r b)"

fun added_names :: "'h registration list \<Rightarrow> string list" where
  "added_names [] = []"
| "added_names (Add command handler # rs) = command # added_names rs"
| "added_names (SetDefault handler # rs) = added_names rs"

section \<open>examples/hello.py\<close>

text \<open>
  The example application, without its greeting file and without the \<^verbatim>\<open>ask\<close> command
  (whose handler reads standard input). The attached \<^verbatim>\<open>Name\<close> object is its
  \<^verbatim>\<open>value\<close>. Decorators apply from the innermost outwards, so \<^verbatim>\<open>quit\<close> is
  registered before \<^verbatim>\<open>q\<close>, and \<^verbatim>\<open>?\<close> before \<^verbatim>\<open>help\<close>.
\<close>

datatype hello = H_stop | H_listCommands | H_sayHello

definition name_value :: "('h, 'm) Console_scheme \<Rightarrow> string" where
  "name_value c = (case Console_getObject ''name'' PyNone c of PyStr v \<Rightarrow> v | _ \<Rightarrow> [])"

fun hello_call :: "(hello, hello Console) handlers" where
  "hello_call H_stop as c =
     (Inr PyNone,
      Console_stop
        (if name_value c \<noteq> [] then display [''Goodbye, '' @ name_value c @ ''!''] c
         else display [''Goodbye!''] c))"
| "hello_call H_listCommands as c =
     (Inr PyNone,
      display [''Available commands:'',
               ''   ask     -- The console asks for your name'',
               ''   greet   -- The console greets you'',
               ''   ?, help -- Display the help message'',
               ''   q, quit -- Exit the console''] c)"
| "hello_call H_sayHello as c =
     (Inr PyNone,
      if name_value c \<noteq> [] then display [''Hello, '' @ name_value c @ ''!''] c
      else display [''Hello there!''] c)"

definition hello_con :: "hello Console" where
  "hello_con =
     apply_registrations
       [Add ''quit'' (PyFunc H_stop), Add ''q'' (PyFunc H_stop),
        Add ''?'' (PyFunc H_listCommands), Add ''help'' (PyFunc H_listCommands),
        Add ''greet'' (PyFunc H_sayHello)]
       (Console_attach ''name'' (PyStr []) (Console_init ''>'' []))"

text \<open>
  A splitter for the examples: the maximal runs of characters other than
  \<^verbatim>\<open>shlex\<close>'s whitespace (blank, tab, carriage return, line feed). It is what
  \<^verbatim>\<open>shlex.split\<close> gives on a line that has no quote, backslash or \<^verbatim>\<open>#\<close>; the
  examples use it on such lines only.
\<close>

definition shlex_whitespace :: "char \<Rightarrow> bool" where
  "shlex_whitespace x = (x = CHR '' '' \<or> x = CHR 0x09 \<or> x = CHR 0x0D \<or> x = CHR 0x0A)"

fun runs_of :: "string \<Rightarrow> string \<Rightarrow> string list" where
  "runs_of cur [] = (if cur = [] then [] else [cur])"
| "runs_of cur (x # xs) =
     (if shlex_whitespace x
      then (if cur = [] then runs_of [] xs else cur # runs_of [] xs)
      else runs_of (cur @ [x]) xs)"

definition plain_split :: splitter where
  "plain_split line = Inr (runs_of [] line)"

text \<open>
  Handlers that raise, for the examples on errors: a handler is named by the exception
  it raises, and does nothing else.
\<close>

definition raising :: "(exn, 's) handlers" where
  "raising e as s = (Inl e, s)"

definition raising_con :: "exn Console" where
  "raising_con =
     apply_registrations
       [Add ''boom'' (PyFunc ValueError), Add ''int'' (PyFunc KeyboardInterrupt),
        Add ''os'' (PyFunc OSError),
        Add ''sub'' (PyFunc (CommandBindingException ''x: command not recognized''))]
       (Console_init ''>'' [])"

text \<open>The files in which \<^verbatim>\<open>script.txt\<close> has the given lines and nothing else exists.\<close>

definition one_script :: "string list \<Rightarrow> files" where
  "one_script script filename = (if filename = ''script.txt'' then Some script else None)"

section \<open>Properties of Bindings\<close>

lemma commands_get_args [simp]:
  "commands_get command (b\<lparr>args := xs\<rparr>) = commands_get command b"
  by (simp add: commands_get_def split: option.splits)

lemma execute_Cons:
  "Bindings_execute call (command # rest) b =
     (if \<not> callable (commands_get command b)
      then (Inl (CommandBindingException (not_recognized command)), b\<lparr>args := rest\<rparr>)
      else py_call call (commands_get command b) rest (b\<lparr>args := rest\<rparr>))"
  by (simp add: Bindings_execute_def Let_def)

lemma not_contains_get:
  "\<not> Bindings_contains x b \<Longrightarrow> commands_get x b = default_handler b"
  by (simp add: Bindings_contains_def commands_get_def map_of_eq_None_iff[THEN iffD2])

text \<open>
  C1. If \<open>x\<close> is not a registered command and no default handler is set, then
  \<^verbatim>\<open>execute(x, args...)\<close> raises \<^verbatim>\<open>CommandBindingException\<close> with the message
  \<open>x\<close> followed by \<^verbatim>\<open>: command not recognized\<close>. No handler is invoked: the outcome
  is the same whatever calling a handler would do, and the Bindings differ from the
  ones before only in \<^verbatim>\<open>_args\<close>.
\<close>

theorem execute_unrecognized:
  assumes "\<not> Bindings_contains x b" and "default_handler b = PyNone"
  shows "Bindings_execute call (x # as) b =
           (Inl (CommandBindingException (x @ '': command not recognized'')), b\<lparr>args := as\<rparr>)
         \<and> Bindings_execute call (x # as) b = Bindings_execute call' (x # as) b"
  using assms by (simp add: execute_Cons not_contains_get not_recognized_def)

theorem execute_unrecognized_witness:
  "\<not> Bindings_contains ''x'' (Bindings_init :: nat Bindings)
   \<and> default_handler (Bindings_init :: nat Bindings) = PyNone
   \<and> Bindings_execute (\<lambda>h as s. (Inr (PyInt 1), s)) [''x'', ''a''] (Bindings_init :: nat Bindings) =
       (Inl (CommandBindingException ''x: command not recognized''),
        Bindings_init\<lparr>args := [''a'']\<rparr>)"
  using execute_unrecognized [of "''x''" "Bindings_init :: nat Bindings"
          "\<lambda>h as s. (Inr (PyInt 1), s)" "[''a'']" "\<lambda>h as s. (Inr (PyInt 1), s)"]
  by (simp add: Bindings_contains_def Bindings_init_def)

text \<open>
  C8. \<^verbatim>\<open>execute()\<close> with no argument returns at once: whatever the handlers are, the
  result is \<^verbatim>\<open>None\<close>, nothing is raised, no handler is called and the Bindings
  (so \<^verbatim>\<open>_args\<close> and \<^verbatim>\<open>argc\<close>) are as before.
\<close>

theorem execute_no_arguments:
  "Bindings_execute call [] b = (Inr PyNone, b)
   \<and> args (snd (Bindings_execute call [] b)) = args b
   \<and> argc (snd (Bindings_execute call [] b)) = argc b"
  by (simp add: Bindings_execute_def)

text \<open>
  C6. If \<open>x\<close> is not a registered command and the default handler is the callable
  \<open>d\<close>, then \<^verbatim>\<open>execute(x, args...)\<close> is the call of \<open>d\<close> on exactly \<open>args\<close> (made after
  \<^verbatim>\<open>_args\<close> is set to them), result and effects included; \<^verbatim>\<open>execute(x)\<close> calls \<open>d\<close>
  with no argument.
\<close>

theorem execute_default:
  assumes "\<not> Bindings_contains x b" and "default_handler b = PyFunc d"
  shows "Bindings_execute call (x # as) b = call d as (b\<lparr>args := as\<rparr>)
         \<and> Bindings_execute call [x] b = call d [] (b\<lparr>args := []\<rparr>)"
  using assms by (simp add: execute_Cons not_contains_get)

theorem execute_default_witness:
  "\<not> Bindings_contains ''x'' (snd (Bindings_setDefault (PyFunc (7::nat)) Bindings_init))
   \<and> default_handler (snd (Bindings_setDefault (PyFunc (7::nat)) Bindings_init)) = PyFunc 7
   \<and> Bindings_execute (\<lambda>h as s. (Inr (PyInt (int h + int (length as))), s)) [''x'', ''a'', ''b'']
        (snd (Bindings_setDefault (PyFunc (7::nat)) Bindings_init))
      = (Inr (PyInt 9), (snd (Bindings_setDefault (PyFunc 7) Bindings_init))\<lparr>args := [''a'', ''b'']\<rparr>)
   \<and> Bindings_execute (\<lambda>h as s. (Inr (PyInt (int h + int (length as))), s)) [''x'']
        (snd (Bindings_setDefault (PyFunc (7::nat)) Bindings_init))
      = (Inr (PyInt 7), (snd (Bindings_setDefault (PyFunc 7) Bindings_init))\<lparr>args := []\<rparr>)"
  using execute_default [of "''x''" "snd (Bindings_setDefault (PyFunc (7::nat)) Bindings_init)" 7
          "\<lambda>h as s. (Inr (PyInt (int h + int (length as))), s)" "[''a'', ''b'']"]
  by (simp add: Bindings_contains_def Bindings_init_def Bindings_setDefault_def)

text \<open>
  C10. Whenever the value the lookup produces (the registered entry, or the default when
  the command is absent) is not callable, \<^verbatim>\<open>execute\<close> raises
  \<^verbatim>\<open>CommandBindingException\<close> with the message \<^verbatim>\<open><command>: command not recognized\<close>
  and calls nothing. So it does for a command that \<^verbatim>\<open>add\<close> registered with a value
  that is not callable, although the command is then in the mapping.
\<close>

theorem execute_not_callable:
  "(\<not> callable (commands_get command b) \<longrightarrow>
      Bindings_execute call (command # as) b =
        (Inl (CommandBindingException (command @ '': command not recognized'')), b\<lparr>args := as\<rparr>))
   \<and> (\<not> callable v \<longrightarrow>
        Bindings_contains command (snd (Bindings_add command v b))
        \<and> Bindings_execute call (command # as) (snd (Bindings_add command v b)) =
            (Inl (CommandBindingException (command @ '': command not recognized'')),
             (snd (Bindings_add command v b))\<lparr>args := as\<rparr>))"
  by (simp add: execute_Cons not_recognized_def Bindings_add_def Bindings_contains_def
        commands_get_def update_conv' dom_update[simplified])

theorem execute_not_callable_witness:
  "\<not> callable (commands_get ''y'' (snd (Bindings_add ''x'' (PyInt 42) (Bindings_init :: nat Bindings))))
   \<and> Bindings_execute (\<lambda>h as s. (Inr PyNone, s)) [''y'', ''a'']
        (snd (Bindings_add ''x'' (PyInt 42) (Bindings_init :: nat Bindings)))
      = (Inl (CommandBindingException ''y: command not recognized''),
         (snd (Bindings_add ''x'' (PyInt 42) Bindings_init))\<lparr>args := [''a'']\<rparr>)
   \<and> \<not> callable (PyInt 42 :: nat pyobj)
   \<and> Bindings_contains ''x'' (snd (Bindings_add ''x'' (PyInt 42) (Bindings_init :: nat Bindings)))
   \<and> Bindings_execute (\<lambda>h as s. (Inr PyNone, s)) [''x'', ''a'']
        (snd (Bindings_add ''x'' (PyInt 42) (Bindings_init :: nat Bindings)))
      = (Inl (CommandBindingException ''x: command not recognized''),
         (snd (Bindings_add ''x'' (PyInt 42) Bindings_init))\<lparr>args := [''a'']\<rparr>)"
  using execute_not_callable [of "''y''" "snd (Bindings_add ''x'' (PyInt 42) (Bindings_init :: nat Bindings))"
          "\<lambda>h as s. (Inr PyNone, s)" "[''a'']" "PyInt 42"]
        execute_not_callable [of "''x''" "Bindings_init :: nat Bindings"
          "\<lambda>h as s. (Inr PyNone, s)" "[''a'']" "PyInt 42"]
  by (simp add: Bindings_init_def Bindings_add_def commands_get_def)

text \<open>
  C5. For a non-empty argument sequence, \<^verbatim>\<open>execute\<close> assigns the elements after the
  first one to \<^verbatim>\<open>_args\<close> before the outcome of the lookup is known. When the lookup
  gives nothing callable, the exception is raised and the Bindings left behind are the
  old ones with \<^verbatim>\<open>_args\<close> overwritten (so \<^verbatim>\<open>argc\<close> is the new count): nothing is
  rolled back. When it gives a handler, the handler is called on Bindings whose
  \<^verbatim>\<open>_args\<close> are already the new ones.
\<close>

theorem execute_overwrites_args:
  "(\<not> callable (commands_get command b) \<longrightarrow>
      fst (Bindings_execute call (command # as) b) =
        Inl (CommandBindingException (not_recognized command))
      \<and> snd (Bindings_execute call (command # as) b) = b\<lparr>args := as\<rparr>
      \<and> args (snd (Bindings_execute call (command # as) b)) = as
      \<and> argc (snd (Bindings_execute call (command # as) b)) = length as)
   \<and> (commands_get command b = PyFunc h \<longrightarrow>
        Bindings_execute call (command # as) b = call h as (b\<lparr>args := as\<rparr>)
        \<and> args (b\<lparr>args := as\<rparr>) = as \<and> argc (b\<lparr>args := as\<rparr>) = length as)"
  by (simp add: execute_Cons argc_def)

theorem execute_overwrites_args_witness:
  "\<not> callable (commands_get ''x'' ((Bindings_init :: nat Bindings)\<lparr>args := [''old'']\<rparr>))
   \<and> args (snd (Bindings_execute (\<lambda>h as s. (Inr PyNone, s)) [''x'', ''a'', ''b'']
              ((Bindings_init :: nat Bindings)\<lparr>args := [''old'']\<rparr>))) = [''a'', ''b'']
   \<and> argc (snd (Bindings_execute (\<lambda>h as s. (Inr PyNone, s)) [''x'', ''a'', ''b'']
              ((Bindings_init :: nat Bindings)\<lparr>args := [''old'']\<rparr>))) = 2
   \<and> commands_get ''g'' (snd (Bindings_add ''g'' (PyFunc (1::nat)) Bindings_init)) = PyFunc 1
   \<and> Bindings_execute (\<lambda>h as s. (Inr (PyInt (int (argc s))), s)) [''g'', ''a'', ''b'']
        (snd (Bindings_add ''g'' (PyFunc (1::nat)) Bindings_init))
      = (Inr (PyInt 2), (snd (Bindings_add ''g'' (PyFunc 1) Bindings_init))\<lparr>args := [''a'', ''b'']\<rparr>)"
  using execute_overwrites_args [of "''x''" "(Bindings_init :: nat Bindings)\<lparr>args := [''old'']\<rparr>"
          "\<lambda>h as s. (Inr PyNone, s)" "[''a'', ''b'']" 0]
        execute_overwrites_args [of "''g''" "snd (Bindings_add ''g'' (PyFunc (1::nat)) Bindings_init)"
          "\<lambda>h as s. (Inr (PyInt (int (argc s))), s)" "[''a'', ''b'']" 1]
  by (simp add: Bindings_init_def Bindings_add_def commands_get_def argc_def)

lemma py_getitem_nonneg:
  "0 \<le> i \<Longrightarrow> i < int (length xs) \<Longrightarrow> py_getitem xs i = Inr (xs ! nat i)"
  by (simp add: py_getitem_def)

lemma py_getitem_neg:
  "- int (length xs) \<le> i \<Longrightarrow> i < 0 \<Longrightarrow> py_getitem xs i = Inr (xs ! nat (int (length xs) + i))"
  by (simp add: py_getitem_def)

lemma py_getitem_below:
  "i < - int (length xs) \<Longrightarrow> py_getitem xs i = Inl IndexError"
  by (simp add: py_getitem_def)

text \<open>
  C3, as the code has it. \<^verbatim>\<open>getArg(index, default)\<close> returns the fallback for every
  index from \<^verbatim>\<open>argc\<close> on and \<^verbatim>\<open>_args[index]\<close> for \<open>0 \<le> index < argc\<close>. The only guard
  is \<^verbatim>\<open>index >= self.argc\<close>, so a negative index is not given the fallback: from
  \<open>- argc\<close> up to \<open>-1\<close> it reads from the end, \<^verbatim>\<open>_args[argc + index]\<close>.
\<close>

theorem getArg_by_index:
  "(int (argc b) \<le> index \<longrightarrow> Bindings_getArg index dflt b = Inr dflt)
   \<and> (0 \<le> index \<and> index < int (argc b) \<longrightarrow>
        Bindings_getArg index dflt b = Inr (PyStr (args b ! nat index)))
   \<and> (- int (argc b) \<le> index \<and> index < 0 \<longrightarrow>
        Bindings_getArg index dflt b = Inr (PyStr (args b ! nat (int (argc b) + index))))"
  by (simp add: Bindings_getArg_def argc_def py_getitem_nonneg py_getitem_neg)

theorem getArg_by_index_witness:
  "Bindings_getArg 5 (PyStr ''fallback'') ((Bindings_init :: nat Bindings)\<lparr>args := [''Bob'', ''Al'']\<rparr>)
     = Inr (PyStr ''fallback'')
   \<and> Bindings_getArg 1 (PyStr ''fallback'') ((Bindings_init :: nat Bindings)\<lparr>args := [''Bob'', ''Al'']\<rparr>)
     = Inr (PyStr ''Al'')
   \<and> Bindings_getArg (- 2) (PyStr ''fallback'') ((Bindings_init :: nat Bindings)\<lparr>args := [''Bob'', ''Al'']\<rparr>)
     = Inr (PyStr ''Bob'')"
  using getArg_by_index [of "(Bindings_init :: nat Bindings)\<lparr>args := [''Bob'', ''Al'']\<rparr>" 5 "PyStr ''fallback''"]
        getArg_by_index [of "(Bindings_init :: nat Bindings)\<lparr>args := [''Bob'', ''Al'']\<rparr>" 1 "PyStr ''fallback''"]
        getArg_by_index [of "(Bindings_init :: nat Bindings)\<lparr>args := [''Bob'', ''Al'']\<rparr>" "- 2" "PyStr ''fallback''"]
  by (simp add: argc_def)

text \<open>
  C3 as the claim states it fails at index \<open>-1\<close>: with \<^verbatim>\<open>_args = ('Bob',)\<close>,
  \<^verbatim>\<open>getArg(-1, 'fallback')\<close> is \<^verbatim>\<open>'Bob'\<close>, not the fallback.
\<close>

theorem getArg_negative_index_counterexample:
  "Bindings_getArg (- 1) (PyStr ''fallback'') ((Bindings_init :: nat Bindings)\<lparr>args := [''Bob'']\<rparr>)
     = Inr (PyStr ''Bob'')
   \<and> Bindings_getArg (- 1) (PyStr ''fallback'') ((Bindings_init :: nat Bindings)\<lparr>args := [''Bob'']\<rparr>)
     \<noteq> Inr (PyStr ''fallback'')"
  by (simp add: Bindings_getArg_def argc_def py_getitem_def)

text \<open>Below \<open>- argc\<close> the read of \<^verbatim>\<open>_args[index]\<close> raises \<^verbatim>\<open>IndexError\<close>.\<close>

lemma getArg_below:
  "index < - int (argc b) \<Longrightarrow> Bindings_getArg index dflt b = Inl IndexError"
  by (simp add: Bindings_getArg_def argc_def py_getitem_below)

lemma distinct_apply_registrations:
  "distinct (map fst (commands b)) \<Longrightarrow> distinct (map fst (commands (apply_registrations rs b)))"
proof (induction rs arbitrary: b)
  case Nil
  then show ?case by simp
next
  case (Cons r rs)
  have "distinct (map fst (commands (apply_registration r b)))"
    using Cons.prems by (cases r) (simp_all add: Bindings_add_def Bindings_setDefault_def distinct_update)
  then show ?case using Cons.IH by simp
qed

lemma set_apply_registrations:
  "fst ` set (commands (apply_registrations rs b)) = fst ` set (commands b) \<union> set (added_names rs)"
proof (induction rs arbitrary: b)
  case Nil
  then show ?case by simp
next
  case (Cons r rs)
  have "fst ` set (commands (apply_registrations (r # rs) b)) =
          fst ` set (commands (apply_registration r b)) \<union> set (added_names rs)"
    by (simp add: Cons.IH)
  also have "\<dots> = fst ` set (commands b) \<union> set (added_names (r # rs))"
    by (cases r) (auto simp: Bindings_add_def Bindings_setDefault_def dom_update)
  finally show ?case .
qed

lemma map_of_apply_registrations_other:
  "c \<notin> set (added_names rs) \<Longrightarrow>
     map_of (commands (apply_registrations rs b)) c = map_of (commands b) c"
proof (induction rs arbitrary: b)
  case Nil
  then show ?case by simp
next
  case (Cons r rs)
  then show ?case
    by (cases r) (auto simp: Bindings_add_def Bindings_setDefault_def update_conv')
qed

lemma apply_registrations_append:
  "apply_registrations (rs @ rs') b = apply_registrations rs' (apply_registrations rs b)"
  by (induction rs arbitrary: b) simp_all

lemma added_names_append:
  "added_names (rs @ rs') = added_names rs @ added_names rs'"
  by (induction rs rule: added_names.induct) simp_all

text \<open>The handler a name maps to is the one of the last \<^verbatim>\<open>add\<close> of that name.\<close>

lemma latest_registration:
  "c \<notin> set (added_names rs') \<Longrightarrow>
     map_of (commands (apply_registrations (rs @ Add c h # rs') b)) c = Some h"
  by (simp add: apply_registrations_append map_of_apply_registrations_other
        Bindings_add_def update_conv')

lemma count_list_distinct:
  "distinct xs \<Longrightarrow> x \<in> set xs \<Longrightarrow> count_list xs x = 1"
  by (induction xs) auto

lemma asList_apply_registrations:
  "sorted (Bindings_asList (apply_registrations rs Bindings_init))
   \<and> distinct (Bindings_asList (apply_registrations rs Bindings_init))
   \<and> set (Bindings_asList (apply_registrations rs Bindings_init)) = set (added_names rs)"
  using distinct_apply_registrations [of Bindings_init rs] set_apply_registrations [of rs Bindings_init]
  by (simp add: Bindings_asList_def Bindings_init_def)

text \<open>Every name a sequence adds has a last \<^verbatim>\<open>add\<close> in it.\<close>

lemma last_add_exists:
  "c \<in> set (added_names rs) \<Longrightarrow>
     \<exists>pre v post. rs = pre @ Add c v # post \<and> c \<notin> set (added_names post)"
proof (induction rs rule: rev_induct)
  case Nil
  then show ?case by simp
next
  case (snoc r rs)
  show ?case
  proof (cases r)
    case (Add n v)
    show ?thesis
    proof (cases "n = c")
      case True
      with Add have "rs @ [r] = rs @ Add c v # [] \<and> c \<notin> set (added_names [])" by simp
      then show ?thesis by blast
    next
      case False
      with Add snoc.prems have "c \<in> set (added_names rs)" by (simp add: added_names_append)
      from snoc.IH [OF this] obtain pre v' post
        where "rs = pre @ Add c v' # post" and "c \<notin> set (added_names post)" by blast
      with Add False have "rs @ [r] = pre @ Add c v' # (post @ [r])
          \<and> c \<notin> set (added_names (post @ [r]))" by (simp add: added_names_append)
      then show ?thesis by blast
    qed
  next
    case (SetDefault v)
    with snoc.prems have "c \<in> set (added_names rs)" by (simp add: added_names_append)
    from snoc.IH [OF this] obtain pre v' post
      where "rs = pre @ Add c v' # post" and "c \<notin> set (added_names post)" by blast
    with SetDefault have "rs @ [r] = pre @ Add c v' # (post @ [r])
        \<and> c \<notin> set (added_names (post @ [r]))" by (simp add: added_names_append)
    then show ?thesis by blast
  qed
qed

text \<open>
  C7. After any sequence of \<^verbatim>\<open>add\<close>/\<^verbatim>\<open>setDefault\<close> calls on fresh Bindings,
  \<^verbatim>\<open>asList()\<close> is sorted ascending, has no duplicates, and holds exactly the names added,
  each of them once. Each name reflects only its most recent handler: whatever comes
  before an \<^verbatim>\<open>add(c, v)\<close>, and whatever registrations other than of \<open>c\<close> come after
  it, the lookup of \<open>c\<close> gives \<open>v\<close>, and when \<open>v\<close> is the handler \<open>h\<close>, executing \<open>c\<close> is
  the call of \<open>h\<close>. In particular after \<^verbatim>\<open>add(c, h1)\<close> and then \<^verbatim>\<open>add(c, h2)\<close>, \<open>c\<close> is
  in the list once and executing \<open>c\<close> is the call of \<open>h2\<close> alone.
\<close>

theorem asList_sorted_latest_handler:
  "sorted (Bindings_asList (apply_registrations rs Bindings_init))
   \<and> distinct (Bindings_asList (apply_registrations rs Bindings_init))
   \<and> set (Bindings_asList (apply_registrations rs Bindings_init)) = set (added_names rs)
   \<and> (c \<in> set (added_names rs) \<longrightarrow>
        count_list (Bindings_asList (apply_registrations rs Bindings_init)) c = 1)
   \<and> (c \<notin> set (added_names rs') \<longrightarrow>
        commands_get c (apply_registrations (rs @ Add c v # rs') Bindings_init) = v
        \<and> Bindings_execute call (c # as)
             (apply_registrations (rs @ Add c (PyFunc h) # rs') Bindings_init)
           = call h as
               ((apply_registrations (rs @ Add c (PyFunc h) # rs') Bindings_init)\<lparr>args := as\<rparr>))
   \<and> count_list (Bindings_asList
        (apply_registrations (rs @ [Add c (PyFunc h1), Add c (PyFunc h2)]) Bindings_init)) c = 1
   \<and> Bindings_execute call (c # as)
        (apply_registrations (rs @ [Add c (PyFunc h1), Add c (PyFunc h2)]) Bindings_init)
      = call h2 as
          ((apply_registrations (rs @ [Add c (PyFunc h1), Add c (PyFunc h2)]) Bindings_init)
             \<lparr>args := as\<rparr>)"
proof -
  let ?b = "apply_registrations (rs @ [Add c (PyFunc h1), Add c (PyFunc h2)]) Bindings_init"
  have srt: "sorted (Bindings_asList (apply_registrations rs Bindings_init))
      \<and> distinct (Bindings_asList (apply_registrations rs Bindings_init))
      \<and> set (Bindings_asList (apply_registrations rs Bindings_init)) = set (added_names rs)"
    by (rule asList_apply_registrations)
  have once: "c \<in> set (added_names rs) \<longrightarrow>
      count_list (Bindings_asList (apply_registrations rs Bindings_init)) c = 1"
    using srt by (simp add: count_list_distinct)
  have latest: "c \<notin> set (added_names rs') \<longrightarrow>
      commands_get c (apply_registrations (rs @ Add c v # rs') Bindings_init) = v"
    by (simp add: latest_registration commands_get_def)
  have run: "c \<notin> set (added_names rs') \<longrightarrow>
      Bindings_execute call (c # as)
        (apply_registrations (rs @ Add c (PyFunc h) # rs') Bindings_init)
      = call h as
          ((apply_registrations (rs @ Add c (PyFunc h) # rs') Bindings_init)\<lparr>args := as\<rparr>)"
    by (simp add: latest_registration commands_get_def execute_Cons)
  have l: "map_of (commands ?b) c = Some (PyFunc h2)"
    using latest_registration [of c "[]" "rs @ [Add c (PyFunc h1)]" "PyFunc h2" Bindings_init]
    by simp
  have "c \<in> set (Bindings_asList ?b)"
    using asList_apply_registrations [of "rs @ [Add c (PyFunc h1), Add c (PyFunc h2)]"]
    by (simp add: added_names_append)
  then have twice: "count_list (Bindings_asList ?b) c = 1"
    using asList_apply_registrations [of "rs @ [Add c (PyFunc h1), Add c (PyFunc h2)]"]
    by (simp add: count_list_distinct)
  have ex2: "Bindings_execute call (c # as) ?b = call h2 as (?b\<lparr>args := as\<rparr>)"
    using l by (simp add: execute_Cons commands_get_def)
  from srt once latest run twice ex2 show ?thesis by blast
qed

text \<open>
  The sequence \<^verbatim>\<open>add('q', 1)\<close>, \<^verbatim>\<open>add('q', 2)\<close>, \<^verbatim>\<open>add('help', 3)\<close>,
  \<^verbatim>\<open>setDefault(4)\<close>, with handlers that return their own number: the list is
  \<^verbatim>\<open>['help', 'q']\<close> and executing \<^verbatim>\<open>q\<close> returns 2.
\<close>

theorem asList_sorted_latest_handler_witness:
  "Bindings_asList (apply_registrations
       [Add ''q'' (PyFunc (1::nat)), Add ''q'' (PyFunc 2), Add ''help'' (PyFunc 3),
        SetDefault (PyFunc 4)] Bindings_init) = [''help'', ''q'']
   \<and> ''q'' \<in> set (added_names
       [Add ''q'' (PyFunc (1::nat)), Add ''q'' (PyFunc 2), Add ''help'' (PyFunc 3),
        SetDefault (PyFunc 4)])
   \<and> count_list (Bindings_asList (apply_registrations
       [Add ''q'' (PyFunc (1::nat)), Add ''q'' (PyFunc 2), Add ''help'' (PyFunc 3),
        SetDefault (PyFunc 4)] Bindings_init)) ''q'' = 1
   \<and> ''q'' \<notin> set (added_names [Add ''help'' (PyFunc (3::nat)), SetDefault (PyFunc 4)])
   \<and> Bindings_execute (\<lambda>h as s. (Inr (PyInt (int h)), s)) [''q'', ''a'']
        (apply_registrations
           [Add ''q'' (PyFunc (1::nat)), Add ''q'' (PyFunc 2), Add ''help'' (PyFunc 3),
            SetDefault (PyFunc 4)] Bindings_init)
      = (Inr (PyInt 2),
         (apply_registrations
            [Add ''q'' (PyFunc (1::nat)), Add ''q'' (PyFunc 2), Add ''help'' (PyFunc 3),
             SetDefault (PyFunc 4)] Bindings_init)\<lparr>args := [''a'']\<rparr>)"
proof -
  let ?rs = "[Add ''q'' (PyFunc (1::nat)), Add ''q'' (PyFunc 2), Add ''help'' (PyFunc 3),
              SetDefault (PyFunc 4)]"
  have a: "''q'' \<in> set (added_names ?rs)" by simp
  have b: "''q'' \<notin> set (added_names [Add ''help'' (PyFunc (3::nat)), SetDefault (PyFunc 4)])"
    by simp
  have c: "Bindings_asList (apply_registrations ?rs Bindings_init) = [''help'', ''q'']"
    by code_simp
  have d: "[Add ''q'' (PyFunc (1::nat))] @ Add ''q'' (PyFunc 2)
             # [Add ''help'' (PyFunc 3), SetDefault (PyFunc 4)] = ?rs"
    by simp
  from asList_sorted_latest_handler [of ?rs "''q''"
         "[Add ''help'' (PyFunc (3::nat)), SetDefault (PyFunc 4)]" "PyFunc 2"
         "\<lambda>h as s. (Inr (PyInt (int h)), s)" "[''a'']" 2 1 2]
       asList_sorted_latest_handler [of "[Add ''q'' (PyFunc (1::nat))]" "''q''"
         "[Add ''help'' (PyFunc (3::nat)), SetDefault (PyFunc 4)]" "PyFunc 2"
         "\<lambda>h as s. (Inr (PyInt (int h)), s)" "[''a'']" 2 1 2]
  show ?thesis using a b c d by simp
qed

section \<open>Properties of Console\<close>

text \<open>What \<^verbatim>\<open>_process_command\<close> does with a line that dispatches to a handler.\<close>

lemma process_command_dispatch:
  assumes "split response = Inr (command # as)"
      and "commands_get command s = PyFunc h"
  shows "process_command split call response s =
           (case call h as (s\<lparr>args := as\<rparr>) of
              (Inl (CommandBindingException m), s') \<Rightarrow> (Inr (), display [m] s')
            | (Inl e, s') \<Rightarrow> (Inl e, s')
            | (Inr v, s') \<Rightarrow> (Inr (), s'))"
  using assms by (simp add: process_command_def execute_Cons)

lemma process_command_raises:
  assumes "split response = Inr (command # as)"
      and "commands_get command s = PyFunc h"
      and "call h as (s\<lparr>args := as\<rparr>) = (Inl e, s')"
      and "\<forall>m. e \<noteq> CommandBindingException m"
  shows "process_command split call response s = (Inl e, s')"
  using assms by (cases e) (simp_all add: process_command_dispatch)

text \<open>
  The loop gives the same outcome from every state that its iterations reach, so a
  statement about the loop started at a reachable state is one about the whole loop.
\<close>

lemma run_iteration_run_loop:
  "run_iteration split call x y \<Longrightarrow>
     run_loop split call (fst x) (snd x) = run_loop split call (fst y) (snd y)"
  by (induction rule: run_iteration.induct) (simp add: run_loop.simps [of _ _ ins c for ins c])

lemma run_iterations_run_loop:
  "(run_iteration split call)\<^sup>*\<^sup>* x y \<Longrightarrow>
     run_loop split call (fst x) (snd x) = run_loop split call (fst y) (snd y)"
  by (induction rule: rtranclp_induct) (simp_all add: run_iteration_run_loop)

lemma run_loop_raises:
  assumes "running s"
      and "py_input (prompt s) ins s = (Inr response, s1, rest)"
      and "process_command split call response s1 = (Inl e, s2)"
  shows "run_loop split call ins s = (Inl e, s2, rest)"
  using assms by (simp add: run_loop.simps [of _ _ ins s])

lemma run_loop_stopped:
  "\<not> running s \<Longrightarrow> run_loop split call ins s = (Inr (), s, ins)"
  by (simp add: run_loop.simps [of _ _ ins s])

lemma run_loop_continues:
  assumes "running s"
      and "py_input (prompt s) ins s = (Inr response, s1, rest)"
      and "process_command split call response s1 = (Inr (), s2)"
  shows "run_loop split call ins s = run_loop split call rest s2"
  using assms by (simp add: run_loop.simps [of _ _ ins s])

lemma running_py_print [simp]: "running (py_print m c) = running c"
  by (simp add: py_print_def)

lemma running_display [simp]: "running (display ms c) = running c"
  by (induction ms arbitrary: c) simp_all

lemma script_loop_append:
  "script_loop split call pre c = (Inr (), s) \<Longrightarrow>
     script_loop split call (pre @ post) c = script_loop split call post s"
  by (induction pre arbitrary: c) (auto split: prod.splits sum.splits)

lemma script_loop_fold:
  assumes "\<forall>n<length script.
             fst (process_command split call (script ! n)
                    (foldl (\<lambda>s l. snd (process_command split call l s)) c (take n script))) = Inr ()"
  shows "script_loop split call script c =
           (Inr (), foldl (\<lambda>s l. snd (process_command split call l s)) c script)"
  using assms
proof (induction script arbitrary: c)
  case Nil
  then show ?case by simp
next
  case (Cons l ls)
  from Cons.prems have "fst (process_command split call l c) = Inr ()"
    by force
  then obtain c1 where p: "process_command split call l c = (Inr (), c1)"
    by (cases "process_command split call l c") simp
  have "\<forall>n<length ls.
          fst (process_command split call (ls ! n)
                 (foldl (\<lambda>s l. snd (process_command split call l s)) c1 (take n ls))) = Inr ()"
  proof (intro allI impI)
    fix n assume "n < length ls"
    then have "Suc n < length (l # ls)" by simp
    from Cons.prems [rule_format, OF this] show
      "fst (process_command split call (ls ! n)
              (foldl (\<lambda>s l. snd (process_command split call l s)) c1 (take n ls))) = Inr ()"
      using p by simp
  qed
  from Cons.IH [OF this] show ?case using p by simp
qed


text \<open>
  C9. Take any state \<open>s\<close> that the loop of \<^verbatim>\<open>run()\<close> reaches at the top of an
  iteration with the flag set, and let the line read there dispatch to a handler that
  leaves the flag cleared (it called \<^verbatim>\<open>stop()\<close>). Then \<^verbatim>\<open>run()\<close> ends with standard
  input exactly as it was after that line: no further line is read. If the handler
  returned normally, \<^verbatim>\<open>run()\<close> returns normally in the state the handler left.
\<close>

theorem run_stops_after_stop:
  assumes "(run_iteration split call)\<^sup>*\<^sup>* (ins, (display_greeting c)\<lparr>running := True\<rparr>) (ins', s)"
      and "running s"
      and "py_input (prompt s) ins' s = (Inr response, s1, rest)"
      and "split response = Inr (command # as)"
      and "commands_get command s1 = PyFunc h"
      and "call h as (s1\<lparr>args := as\<rparr>) = (r, s2)"
      and "\<not> running s2"
  shows "snd (snd (Console_run split call ins c)) = rest
         \<and> (\<forall>v. r = Inr v \<longrightarrow> Console_run split call ins c = (Inr (), s2, rest))"
proof -
  have loop: "run_loop split call ins ((display_greeting c)\<lparr>running := True\<rparr>) =
                run_loop split call ins' s"
    using run_iterations_run_loop [OF assms(1)] by simp
  have pc: "process_command split call response s1 =
              (case (r, s2) of
                 (Inl (CommandBindingException m), s') \<Rightarrow> (Inr (), display [m] s')
               | (Inl e, s') \<Rightarrow> (Inl e, s')
               | (Inr v, s') \<Rightarrow> (Inr (), s'))"
    using assms(4) assms(5) assms(6) by (simp add: process_command_dispatch)
  show ?thesis
  proof (cases r)
    case (Inr v)
    with pc have "process_command split call response s1 = (Inr (), s2)" by simp
    then have "run_loop split call ins' s = (Inr (), s2, rest)"
      using run_loop_continues [OF assms(2) assms(3)] run_loop_stopped [OF assms(7)] by simp
    with loop Inr show ?thesis by (simp add: Console_run_def)
  next
    case (Inl e)
    show ?thesis
    proof (cases "\<exists>m. e = CommandBindingException m")
      case True
      then obtain m where "e = CommandBindingException m" by blast
      with pc Inl have "process_command split call response s1 = (Inr (), display [m] s2)" by simp
      then have "run_loop split call ins' s = (Inr (), display [m] s2, rest)"
        using run_loop_continues [OF assms(2) assms(3)] run_loop_stopped [of "display [m] s2"] assms(7)
        by simp
      with loop Inl show ?thesis by (simp add: Console_run_def)
    next
      case False
      with pc Inl have "process_command split call response s1 = (Inl e, s2)"
        by (cases e) simp_all
      then have "run_loop split call ins' s = (Inl e, s2, rest)"
        using run_loop_raises [OF assms(2) assms(3)] by simp
      with loop Inl show ?thesis by (cases e) (simp_all add: Console_run_def)
    qed
  qed
qed

text \<open>
  In the example application, the input \<^verbatim>\<open>greet\<close>, \<^verbatim>\<open>q\<close>, \<^verbatim>\<open>greet\<close>: the loop ends
  after \<^verbatim>\<open>q\<close> and the second \<^verbatim>\<open>greet\<close> is left unread.
\<close>

theorem run_stops_after_stop_witness:
  "Console_run plain_split hello_call [Line ''greet'', Line ''q'', Line ''greet''] hello_con =
     (Inr (),
      hello_con\<lparr>running := False,
                stdout := ''\<newline>> Hello there!\<newline>\<newline>> Goodbye!\<newline>''\<rparr>,
      [Line ''greet''])"
proof -
  let ?c0 = "(display_greeting hello_con)\<lparr>running := True\<rparr>"
  let ?c1 = "?c0\<lparr>stdout := ''\<newline>> ''\<rparr>"
  let ?s = "?c0\<lparr>stdout := ''\<newline>> Hello there!\<newline>''\<rparr>"
  let ?s1 = "?c0\<lparr>stdout := ''\<newline>> Hello there!\<newline>\<newline>> ''\<rparr>"
  let ?s2 = "hello_con\<lparr>running := False,
               stdout := ''\<newline>> Hello there!\<newline>\<newline>> Goodbye!\<newline>''\<rparr>"
  have "run_iteration plain_split hello_call
          ([Line ''greet'', Line ''q'', Line ''greet''], ?c0) ([Line ''q'', Line ''greet''], ?s)"
  proof (rule run_iteration.iteration)
    show "running ?c0" by simp
    show "py_input (prompt ?c0) [Line ''greet'', Line ''q'', Line ''greet''] ?c0 =
            (Inr ''greet'', ?c1, [Line ''q'', Line ''greet''])"
      by code_simp
    show "process_command plain_split hello_call ''greet'' ?c1 = (Inr (), ?s)"
      by code_simp
  qed
  then have h1: "(run_iteration plain_split hello_call)\<^sup>*\<^sup>*
          ([Line ''greet'', Line ''q'', Line ''greet''], ?c0) ([Line ''q'', Line ''greet''], ?s)"
    by (rule r_into_rtranclp)
  have h2: "running ?s" by simp
  have h3: "py_input (prompt ?s) [Line ''q'', Line ''greet''] ?s = (Inr ''q'', ?s1, [Line ''greet''])"
    by code_simp
  have h4: "plain_split ''q'' = Inr [''q'']" by code_simp
  have h5: "commands_get ''q'' ?s1 = PyFunc H_stop" by code_simp
  have h6: "hello_call H_stop [] (?s1\<lparr>args := []\<rparr>) = (Inr PyNone, ?s2)" by code_simp
  have h7: "\<not> running ?s2" by simp
  from run_stops_after_stop [where split = plain_split and call = hello_call
         and response = "''q''", OF h1 h2 h3 h4 h5 h6 h7]
  show ?thesis by simp
qed

text \<open>
  C2. If each line of the script, processed in the state the lines before it left, raises
  nothing, then \<^verbatim>\<open>execute(filename)\<close> returns normally in the state obtained by
  processing all the lines in file order, starting after the greeting. The flag
  \<^verbatim>\<open>_running\<close> plays no part: a handler that clears it does not end the iteration.
\<close>

theorem execute_processes_every_line:
  assumes "fs filename = Some script"
      and "\<forall>n<length script.
             fst (process_command split call (script ! n)
                    (foldl (\<lambda>s l. snd (process_command split call l s)) (display_greeting c)
                       (take n script))) = Inr ()"
  shows "Console_execute fs split call filename c =
           (Inr (), foldl (\<lambda>s l. snd (process_command split call l s)) (display_greeting c) script)"
  using assms(1) script_loop_fold [OF assms(2)] by (simp add: Console_execute_def)

text \<open>
  In the example application, the script \<^verbatim>\<open>q\<close>, \<^verbatim>\<open>greet\<close>: the handler of \<^verbatim>\<open>q\<close>
  calls \<^verbatim>\<open>stop()\<close>, and \<^verbatim>\<open>greet\<close> is processed all the same.
\<close>

theorem execute_processes_every_line_witness:
  "Console_execute (one_script [''q\<newline>'', ''greet\<newline>'']) plain_split hello_call
       ''script.txt'' hello_con =
     (Inr (), hello_con\<lparr>running := False, stdout := ''Goodbye!\<newline>Hello there!\<newline>''\<rparr>)"
proof -
  let ?step = "\<lambda>s l. snd (process_command plain_split hello_call l s)"
  have h1: "one_script [''q\<newline>'', ''greet\<newline>''] ''script.txt'' = Some [''q\<newline>'', ''greet\<newline>'']"
    by (simp add: one_script_def)
  have h2: "\<forall>n<length [''q\<newline>'', ''greet\<newline>''].
              fst (process_command plain_split hello_call ([''q\<newline>'', ''greet\<newline>''] ! n)
                     (foldl ?step (display_greeting hello_con) (take n [''q\<newline>'', ''greet\<newline>'']))) = Inr ()"
  proof (intro allI impI)
    fix n :: nat
    assume "n < length [''q\<newline>'', ''greet\<newline>'']"
    then consider "n = 0" | "n = 1" by fastforce
    then show "fst (process_command plain_split hello_call ([''q\<newline>'', ''greet\<newline>''] ! n)
                     (foldl ?step (display_greeting hello_con) (take n [''q\<newline>'', ''greet\<newline>'']))) = Inr ()"
    proof cases
      case 1
      have "fst (process_command plain_split hello_call ([''q\<newline>'', ''greet\<newline>''] ! 0)
                     (foldl ?step (display_greeting hello_con) (take 0 [''q\<newline>'', ''greet\<newline>'']))) = Inr ()"
        by code_simp
      with 1 show ?thesis by simp
    next
      case 2
      have "fst (process_command plain_split hello_call ([''q\<newline>'', ''greet\<newline>''] ! 1)
                     (foldl ?step (display_greeting hello_con) (take 1 [''q\<newline>'', ''greet\<newline>'']))) = Inr ()"
        by code_simp
      with 2 show ?thesis by simp
    qed
  qed
  have "foldl ?step (display_greeting hello_con) [''q\<newline>'', ''greet\<newline>''] =
          hello_con\<lparr>running := False, stdout := ''Goodbye!\<newline>Hello there!\<newline>''\<rparr>"
    by code_simp
  with execute_processes_every_line [where split = plain_split and call = hello_call
         and fs = "one_script [''q\<newline>'', ''greet\<newline>'']" and filename = "''script.txt''"
         and c = hello_con, OF h1 h2]
  show ?thesis by simp
qed

text \<open>
  What does propagate. Let a line dispatch to a handler that raises \<open>e\<close>, not a
  \<^verbatim>\<open>CommandBindingException\<close>. \<^verbatim>\<open>Bindings.execute\<close> and \<^verbatim>\<open>_process_command\<close> raise
  \<open>e\<close>, leaving the state the handler left. If \<open>e\<close> is not \<^verbatim>\<open>KeyboardInterrupt\<close>
  and the line is read at a state the loop of \<^verbatim>\<open>run()\<close> reaches, \<^verbatim>\<open>run()\<close> raises \<open>e\<close>.
  If \<open>e\<close> is neither \<^verbatim>\<open>KeyboardInterrupt\<close> nor \<^verbatim>\<open>OSError\<close> and the line follows
  lines of the script that were processed without an error, \<^verbatim>\<open>execute(filename)\<close>
  raises \<open>e\<close>.
\<close>

lemma handler_error_propagates:
  assumes "split response = Inr (command # as)"
      and "commands_get command s1 = PyFunc h"
      and "call h as (s1\<lparr>args := as\<rparr>) = (Inl e, s2)"
      and "\<forall>m. e \<noteq> CommandBindingException m"
  shows "Bindings_execute call (command # as) s1 = (Inl e, s2)
         \<and> process_command split call response s1 = (Inl e, s2)
         \<and> (e \<noteq> KeyboardInterrupt
              \<and> (run_iteration split call)\<^sup>*\<^sup>* (ins, (display_greeting c)\<lparr>running := True\<rparr>) (ins', s)
              \<and> running s \<and> py_input (prompt s) ins' s = (Inr response, s1, rest)
            \<longrightarrow> Console_run split call ins c = (Inl e, s2, rest))
         \<and> (e \<noteq> KeyboardInterrupt \<and> e \<noteq> OSError
              \<and> fs filename = Some (pre @ response # post)
              \<and> script_loop split call pre (display_greeting c) = (Inr (), s1)
            \<longrightarrow> Console_execute fs split call filename c = (Inl e, s2))"
proof -
  have ex: "Bindings_execute call (command # as) s1 = (Inl e, s2)"
    using assms(2) assms(3) by (simp add: execute_Cons)
  have pc: "process_command split call response s1 = (Inl e, s2)"
    using assms by (rule process_command_raises)
  have run: "Console_run split call ins c = (Inl e, s2, rest)"
    if "e \<noteq> KeyboardInterrupt"
      and "(run_iteration split call)\<^sup>*\<^sup>* (ins, (display_greeting c)\<lparr>running := True\<rparr>) (ins', s)"
      and "running s" and "py_input (prompt s) ins' s = (Inr response, s1, rest)"
  proof -
    have "run_loop split call ins ((display_greeting c)\<lparr>running := True\<rparr>) = (Inl e, s2, rest)"
      using run_iterations_run_loop [OF that(2)] run_loop_raises [OF that(3) that(4) pc] by simp
    then show ?thesis using that(1) by (cases e) (simp_all add: Console_run_def)
  qed
  have scr: "Console_execute fs split call filename c = (Inl e, s2)"
    if "e \<noteq> KeyboardInterrupt" and "e \<noteq> OSError"
      and "fs filename = Some (pre @ response # post)"
      and "script_loop split call pre (display_greeting c) = (Inr (), s1)"
  proof -
    have "script_loop split call (pre @ response # post) (display_greeting c) = (Inl e, s2)"
      using script_loop_append [OF that(4)] pc by simp
    then show ?thesis using that(1) that(2) that(3) by (cases e) (simp_all add: Console_execute_def)
  qed
  from ex pc run scr show ?thesis by blast
qed

text \<open>
  With handlers that raise: \<^verbatim>\<open>boom\<close> raises \<^verbatim>\<open>ValueError\<close> on the second line, after
  an unknown command on the first, and the third line is never reached.
\<close>

lemma handler_error_propagates_example:
  "Console_run plain_split raising [Line ''nope'', Line ''boom'', Line ''more''] raising_con =
     (Inl ValueError,
      raising_con\<lparr>running := True,
                  stdout := ''\<newline>> nope: command not recognized\<newline>\<newline>> ''\<rparr>,
      [Line ''more''])
   \<and> Console_execute (one_script [''nope\<newline>'', ''boom\<newline>'', ''more\<newline>'']) plain_split raising
        ''script.txt'' raising_con =
     (Inl ValueError, raising_con\<lparr>stdout := ''nope: command not recognized\<newline>''\<rparr>)"
proof -
  let ?c0 = "(display_greeting raising_con)\<lparr>running := True\<rparr>"
  let ?c1 = "?c0\<lparr>stdout := ''\<newline>> ''\<rparr>"
  let ?s = "?c0\<lparr>stdout := ''\<newline>> nope: command not recognized\<newline>''\<rparr>"
  let ?s1 = "?c0\<lparr>stdout := ''\<newline>> nope: command not recognized\<newline>\<newline>> ''\<rparr>"
  let ?t1 = "raising_con\<lparr>stdout := ''nope: command not recognized\<newline>''\<rparr>"
  have ne: "\<forall>m. ValueError \<noteq> CommandBindingException m" by simp
  have sp: "plain_split ''boom'' = Inr [''boom'']" by code_simp
  have sp': "plain_split ''boom\<newline>'' = Inr [''boom'']" by code_simp
  have "run_iteration plain_split raising
          ([Line ''nope'', Line ''boom'', Line ''more''], ?c0) ([Line ''boom'', Line ''more''], ?s)"
  proof (rule run_iteration.iteration)
    show "running ?c0" by simp
    show "py_input (prompt ?c0) [Line ''nope'', Line ''boom'', Line ''more''] ?c0 =
            (Inr ''nope'', ?c1, [Line ''boom'', Line ''more''])"
      by code_simp
    show "process_command plain_split raising ''nope'' ?c1 = (Inr (), ?s)"
      by code_simp
  qed
  then have r1: "(run_iteration plain_split raising)\<^sup>*\<^sup>*
          ([Line ''nope'', Line ''boom'', Line ''more''], ?c0) ([Line ''boom'', Line ''more''], ?s)"
    by (rule r_into_rtranclp)
  have r2: "running ?s" by simp
  have r3: "py_input (prompt ?s) [Line ''boom'', Line ''more''] ?s =
              (Inr ''boom'', ?s1, [Line ''more''])"
    by code_simp
  have r5: "commands_get ''boom'' ?s1 = PyFunc ValueError" by code_simp
  have r6: "raising ValueError [] (?s1\<lparr>args := []\<rparr>) = (Inl ValueError, ?s1\<lparr>args := []\<rparr>)"
    by (simp add: raising_def)
  have e1: "one_script [''nope\<newline>'', ''boom\<newline>'', ''more\<newline>''] ''script.txt'' =
              Some ([''nope\<newline>''] @ ''boom\<newline>'' # [''more\<newline>''])"
    by (simp add: one_script_def)
  have e2: "script_loop plain_split raising [''nope\<newline>''] (display_greeting raising_con) = (Inr (), ?t1)"
    by code_simp
  have e5: "commands_get ''boom'' ?t1 = PyFunc ValueError" by code_simp
  have e6: "raising ValueError [] (?t1\<lparr>args := []\<rparr>) = (Inl ValueError, ?t1\<lparr>args := []\<rparr>)"
    by (simp add: raising_def)
  have a: "Console_run plain_split raising [Line ''nope'', Line ''boom'', Line ''more''] raising_con =
             (Inl ValueError, ?s1\<lparr>args := []\<rparr>, [Line ''more''])"
    using handler_error_propagates [where split = plain_split and call = raising
            and response = "''boom''", OF sp r5 r6 ne] r1 r2 r3
    by blast
  have b: "Console_execute (one_script [''nope\<newline>'', ''boom\<newline>'', ''more\<newline>'']) plain_split raising
             ''script.txt'' raising_con = (Inl ValueError, ?t1\<lparr>args := []\<rparr>)"
    using handler_error_propagates [where split = plain_split and call = raising
            and response = "''boom\<newline>''"
            and fs = "one_script [''nope\<newline>'', ''boom\<newline>'', ''more\<newline>'']"
            and filename = "''script.txt''", OF sp' e5 e6 ne] e1 e2
    by blast
  have "?s1\<lparr>args := []\<rparr> =
          raising_con\<lparr>running := True,
                      stdout := ''\<newline>> nope: command not recognized\<newline>\<newline>> ''\<rparr>"
    by code_simp
  moreover have "?t1\<lparr>args := []\<rparr> = ?t1" by code_simp
  ultimately show ?thesis using a b by simp
qed

text \<open>
  A \<^verbatim>\<open>CommandBindingException\<close> that a handler raises is caught like the dispatch
  error: its message is displayed and the line ends normally.
\<close>

lemma handler_binding_exception_displayed:
  assumes "split response = Inr (command # as)"
      and "commands_get command s1 = PyFunc h"
      and "call h as (s1\<lparr>args := as\<rparr>) = (Inl (CommandBindingException m), s2)"
  shows "process_command split call response s1 = (Inr (), display [m] s2)"
  using assms by (simp add: process_command_dispatch)

text \<open>
  A \<^verbatim>\<open>KeyboardInterrupt\<close> while a handler runs is caught by \<^verbatim>\<open>run()\<close> and by
  \<^verbatim>\<open>execute(filename)\<close>: each displays its message and returns normally.
\<close>

lemma handler_interrupt_caught:
  assumes "split response = Inr (command # as)"
      and "commands_get command s1 = PyFunc h"
      and "call h as (s1\<lparr>args := as\<rparr>) = (Inl KeyboardInterrupt, s2)"
  shows "((run_iteration split call)\<^sup>*\<^sup>* (ins, (display_greeting c)\<lparr>running := True\<rparr>) (ins', s)
            \<and> running s \<and> py_input (prompt s) ins' s = (Inr response, s1, rest)
          \<longrightarrow> Console_run split call ins c = (Inr (), display ['''', ''Exiting...''] s2, rest))
         \<and> (fs filename = Some (pre @ response # post)
              \<and> script_loop split call pre (display_greeting c) = (Inr (), s1)
            \<longrightarrow> Console_execute fs split call filename c = (Inr (), display [''Terminating...''] s2))"
proof -
  have pc: "process_command split call response s1 = (Inl KeyboardInterrupt, s2)"
    using assms by (simp add: process_command_dispatch)
  have run: "Console_run split call ins c = (Inr (), display ['''', ''Exiting...''] s2, rest)"
    if "(run_iteration split call)\<^sup>*\<^sup>* (ins, (display_greeting c)\<lparr>running := True\<rparr>) (ins', s)"
      and "running s" and "py_input (prompt s) ins' s = (Inr response, s1, rest)"
  proof -
    have "run_loop split call ins ((display_greeting c)\<lparr>running := True\<rparr>) =
            (Inl KeyboardInterrupt, s2, rest)"
      using run_iterations_run_loop [OF that(1)] run_loop_raises [OF that(2) that(3) pc] by simp
    then show ?thesis by (simp add: Console_run_def)
  qed
  have scr: "Console_execute fs split call filename c = (Inr (), display [''Terminating...''] s2)"
    if "fs filename = Some (pre @ response # post)"
      and "script_loop split call pre (display_greeting c) = (Inr (), s1)"
  proof -
    have "script_loop split call (pre @ response # post) (display_greeting c) =
            (Inl KeyboardInterrupt, s2)"
      using script_loop_append [OF that(2)] pc by simp
    then show ?thesis using that(1) by (simp add: Console_execute_def)
  qed
  from run scr show ?thesis by blast
qed

text \<open>
  An \<^verbatim>\<open>OSError\<close> that a handler raises in a script does not leave
  \<^verbatim>\<open>execute(filename)\<close>: the \<^verbatim>\<open>except (IOError, OSError)\<close> clause around the loop
  catches it, displays the message about opening the script, and the call returns
  normally.
\<close>

lemma handler_OSError_caught_by_execute:
  assumes "split response = Inr (command # as)"
      and "commands_get command s1 = PyFunc h"
      and "call h as (s1\<lparr>args := as\<rparr>) = (Inl OSError, s2)"
      and "fs filename = Some (pre @ response # post)"
      and "script_loop split call pre (display_greeting c) = (Inr (), s1)"
  shows "Console_execute fs split call filename c =
           (Inr (), display [''An error occurred while opening script file''] s2)"
proof -
  have pc: "process_command split call response s1 = (Inl OSError, s2)"
    using assms(1) assms(2) assms(3) by (simp add: process_command_dispatch)
  have "script_loop split call (pre @ response # post) (display_greeting c) = (Inl OSError, s2)"
    using script_loop_append [OF assms(5)] pc by simp
  then show ?thesis using assms(4) by (simp add: Console_execute_def)
qed

text \<open>
  C4. The claim is that an error raised by a handler is caught neither by Bindings nor by
  Console and leaves \<^verbatim>\<open>run()\<close> and \<^verbatim>\<open>execute(filename)\<close>. The code breaks it in
  \<^verbatim>\<open>execute(filename)\<close>: with the command \<^verbatim>\<open>os\<close> bound to a handler that raises
  \<^verbatim>\<open>OSError\<close>, the script \<^verbatim>\<open>os\<close>, \<^verbatim>\<open>more\<close> makes \<^verbatim>\<open>execute\<close> display
  \<^verbatim>\<open>An error occurred while opening script file\<close> and return normally, although the
  script was opened. \<^verbatim>\<open>run()\<close>, given the same line, raises the \<^verbatim>\<open>OSError\<close>.
\<close>

theorem execute_swallows_handler_OSError:
  "commands_get ''os'' raising_con = PyFunc OSError
   \<and> raising OSError [] raising_con = (Inl OSError, raising_con)
   \<and> Console_execute (one_script [''os\<newline>'', ''more\<newline>'']) plain_split raising
         ''script.txt'' raising_con =
       (Inr (), raising_con\<lparr>stdout := ''An error occurred while opening script file\<newline>''\<rparr>)
   \<and> Console_run plain_split raising [Line ''os'', Line ''more''] raising_con =
       (Inl OSError, raising_con\<lparr>running := True, stdout := ''\<newline>> ''\<rparr>, [Line ''more''])"
  by code_simp

text \<open>
  The other two exceptions the console catches, with handlers that raise them: an
  interrupt in \<^verbatim>\<open>run()\<close> and in a script, and a \<^verbatim>\<open>CommandBindingException\<close> in a
  script, after which the next line is processed.
\<close>

lemma handler_interrupt_and_binding_exception_examples:
  "Console_run plain_split raising [Line ''int'', Line ''more''] raising_con =
     (Inr (),
      raising_con\<lparr>running := True, stdout := ''\<newline>> \<newline>Exiting...\<newline>''\<rparr>,
      [Line ''more''])
   \<and> Console_execute (one_script [''int\<newline>'', ''more\<newline>'']) plain_split raising
         ''script.txt'' raising_con =
       (Inr (), raising_con\<lparr>stdout := ''Terminating...\<newline>''\<rparr>)
   \<and> Console_execute (one_script [''sub\<newline>'', ''nope\<newline>'']) plain_split raising
         ''script.txt'' raising_con =
       (Inr (),
        raising_con\<lparr>stdout := ''x: command not recognized\<newline>nope: command not recognized\<newline>''\<rparr>)"
  by code_simp

end
